theory Spec2Isabelle
  imports Main
begin

section \<open>Dispute repository (app/payin/repository/dispute\_repo.py)\<close>

subsection \<open>Data model\<close>

text \<open>
  A \<open>datetime\<close> is a point on a totally ordered time line; only equality and the
  order of two datetimes are used by the repository, so an integer timestamp stands for it.
\<close>

type_synonym datetime = int

text \<open>
  Modelled from the spec: the class \<open>StripeDispute\<close> of
  \<open>app.payin.core.dispute.model\<close> is imported by the repository but its declaration is
  not part of the sources. It is the domain object of a dispute row; its fields are the
  fifteen keyword arguments that \<open>to_stripe_dispute\<close> passes to its constructor, with
  the types of the entity fields they are filled from.
\<close>

record StripeDispute =
  id' :: "int option"
  stripe_dispute_id :: string
  disputed_at :: datetime
  amount :: int
  fee :: int
  net :: int
  currency :: "string option"
  charged_at :: datetime
  reason :: string
  status :: string
  evidence_due_by :: datetime
  evidence_submitted_at :: "datetime option"
  updated_at :: "datetime option"
  stripe_card_id :: int
  stripe_charge_id :: int

text \<open>
  \<open>class StripeDisputeDbEntity(DBEntity)\<close>: one row of the table \<open>stripe_disputes\<close>.
  The field \<open>id\<close> of the source is written \<open>id'\<close>.
\<close>

record StripeDisputeDbEntity =
  id' :: "int option"
  stripe_dispute_id :: string
  disputed_at :: datetime
  amount :: int
  fee :: int
  net :: int
  currency :: "string option"
  charged_at :: datetime
  reason :: string
  status :: string
  evidence_due_by :: datetime
  evidence_submitted_at :: "datetime option"
  updated_at :: "datetime option"
  stripe_card_id :: int
  stripe_charge_id :: int

definition to_stripe_dispute :: "StripeDisputeDbEntity \<Rightarrow> StripeDispute" where
  "to_stripe_dispute self =
     \<lparr> StripeDispute.id' = StripeDisputeDbEntity.id' self,
       StripeDispute.stripe_dispute_id = StripeDisputeDbEntity.stripe_dispute_id self,
       StripeDispute.disputed_at = StripeDisputeDbEntity.disputed_at self,
       StripeDispute.amount = StripeDisputeDbEntity.amount self,
       StripeDispute.fee = StripeDisputeDbEntity.fee self,
       StripeDispute.net = StripeDisputeDbEntity.net self,
       StripeDispute.currency = StripeDisputeDbEntity.currency self,
       StripeDispute.charged_at = StripeDisputeDbEntity.charged_at self,
       StripeDispute.reason = StripeDisputeDbEntity.reason self,
       StripeDispute.status = StripeDisputeDbEntity.status self,
       StripeDispute.evidence_due_by = StripeDisputeDbEntity.evidence_due_by self,
       StripeDispute.evidence_submitted_at = StripeDisputeDbEntity.evidence_submitted_at self,
       StripeDispute.updated_at = StripeDisputeDbEntity.updated_at self,
       StripeDispute.stripe_card_id = StripeDisputeDbEntity.stripe_card_id self,
       StripeDispute.stripe_charge_id = StripeDisputeDbEntity.stripe_charge_id self \<rparr>"

subsection \<open>Request models\<close>

text \<open>
  Modelled from the spec: the enumeration \<open>DisputeIdType\<close> of
  \<open>app.payin.core.dispute.types\<close> is not part of the sources. The spec names its
  member \<open>STRIPE_DISPUTE_ID\<close> and speaks of "any other" id type; another member is
  given by its name.
\<close>

datatype DisputeIdType = STRIPE_DISPUTE_ID | other_member string

text \<open>
  The field \<open>dispute_id_type\<close> is declared \<open>Optional[str]\<close> and is compared, by
  identity, with a member of \<open>DisputeIdType\<close>. The object it holds is therefore
  either a member of the enumeration, of which there is one object each, or some other
  \<open>str\<close> object, given by its text. A plain \<open>str\<close> is never the same object as a
  member, whatever its text.
\<close>

datatype str_object = Member DisputeIdType | Str string

record GetStripeDisputeByIdInput =
  stripe_dispute_id :: string
  dispute_id_type :: "str_object option"

record GetAllStripeDisputesByPayerIdInput =
  stripe_card_ids :: "int list"

record UpdateStripeDisputeWhereInput =
  id' :: string

record UpdateStripeDisputeSetInput =
  evidence_submitted_at :: datetime
  updated_at :: datetime

record GetCumulativeAmountInput =
  card_ids :: "int list"
  start_time :: datetime
  reasons :: "string list"

subsection \<open>The store\<close>

text \<open>
  The table \<open>stripe_disputes\<close> is a sequence of rows in the order the store returns
  them. The repository reads from \<open>main_database.replica()\<close> and writes to
  \<open>main_database.master()\<close>; the two targets are kept apart, since nothing in the
  repository copies one to the other.
\<close>

type_synonym stripe_disputes_table = "StripeDisputeDbEntity list"

record main_database =
  replica :: stripe_disputes_table
  master :: stripe_disputes_table

text \<open>
  \<open>table.select().where(p)\<close> keeps the rows on which the predicate holds.
  \<open>fetch_all\<close> returns every row of the statement's result, \<open>fetch_one\<close> its first
  row, or \<open>None\<close> when the result is empty.
\<close>

definition select_where :: "('r \<Rightarrow> bool) \<Rightarrow> 'r list \<Rightarrow> 'r list" where
  "select_where p table = filter p table"

definition fetch_all :: "'r list \<Rightarrow> 'r list" where
  "fetch_all rows = rows"

definition fetch_one :: "'r list \<Rightarrow> 'r option" where
  "fetch_one rows = (case rows of [] \<Rightarrow> None | row # _ \<Rightarrow> Some row)"

text \<open>
  \<open>table.update().where(p).values(v).returning(all columns)\<close> rewrites every row on
  which the predicate holds, leaves the others in place, and yields the rewritten rows.
\<close>

definition update_where_returning ::
  "('r \<Rightarrow> bool) \<Rightarrow> ('r \<Rightarrow> 'r) \<Rightarrow> 'r list \<Rightarrow> 'r list \<times> 'r list" where
  "update_where_returning p v table =
     (map (\<lambda>row. if p row then v row else row) table, map v (filter p table))"

text \<open>
  Modelled from the spec: \<open>DBEntity.from_row\<close> of \<open>app.commons.database.model\<close> is
  not part of the sources. The repository "converts rows to entities", and the entity's
  fields are "consistent with DB table column name", so a row is held as the entity it
  converts to.
\<close>

definition from_row :: "StripeDisputeDbEntity \<Rightarrow> StripeDisputeDbEntity" where
  "from_row row = row"

subsection \<open>Repository operations\<close>

text \<open>
  \<open>DisputeRepository.list_disputes_by_payer_id\<close>: the column-in-list test of an empty
  list holds for no row.
\<close>

definition list_disputes_by_payer_id ::
  "main_database \<Rightarrow> GetAllStripeDisputesByPayerIdInput \<Rightarrow> StripeDisputeDbEntity list" where
  "list_disputes_by_payer_id self input =
     (let stmt = select_where
            (\<lambda>row. StripeDisputeDbEntity.stripe_card_id row \<in> set (stripe_card_ids input));
          rows = fetch_all (stmt (replica self));
          dispute_db_entities = map from_row rows
      in dispute_db_entities)"

text \<open>
  The column \<open>stripe_disputes.id\<close> is numeric and the input carries a text. The store
  compares them as numbers: it reads the text as a decimal integer, an optional minus
  sign and at least one digit, and fails with a data error on any other text.
\<close>

datatype db_error = DataError

fun nat_of_digits :: "string \<Rightarrow> nat \<Rightarrow> nat option" where
  "nat_of_digits [] acc = Some acc"
| "nat_of_digits (c # cs) acc =
     (if c \<in> set ''0123456789''
      then nat_of_digits cs (10 * acc + (of_char c - 48))
      else None)"

definition int_of_text :: "string \<Rightarrow> int option" where
  "int_of_text t =
     (case t of
        [] \<Rightarrow> None
      | c # cs \<Rightarrow>
          if c = CHR ''-''
          then (if cs = [] then None else map_option (\<lambda>n. - int n) (nat_of_digits cs 0))
          else map_option int (nat_of_digits t 0))"

text \<open>
  \<open>DisputeRepository.get_dispute_by_dispute_id\<close>. The statement is chosen by the test
  \<open>dispute_id_type is None or dispute_id_type is DisputeIdType.STRIPE_DISPUTE_ID\<close>,
  a test of identity: it holds for no value and for the member itself, and for no other
  object. The statement fails or yields its rows when it runs on the read target; the
  method returns the first row, or \<open>None\<close>.
\<close>

definition get_dispute_by_dispute_id ::
  "main_database \<Rightarrow> GetStripeDisputeByIdInput
     \<Rightarrow> db_error + StripeDisputeDbEntity option" where
  "get_dispute_by_dispute_id self dispute_input =
     (let stmt =
            (if dispute_id_type dispute_input = None
                \<or> dispute_id_type dispute_input = Some (Member STRIPE_DISPUTE_ID)
             then (\<lambda>table. Inr (select_where
                    (\<lambda>row. StripeDisputeDbEntity.stripe_dispute_id row
                           = GetStripeDisputeByIdInput.stripe_dispute_id dispute_input) table))
             else (\<lambda>table.
                    case int_of_text
                           (GetStripeDisputeByIdInput.stripe_dispute_id dispute_input) of
                      None \<Rightarrow> Inl DataError
                    | Some n \<Rightarrow> Inr (select_where
                        (\<lambda>row. StripeDisputeDbEntity.id' row = Some n) table)))
      in case stmt (replica self) of
           Inl e \<Rightarrow> Inl e
         | Inr rows \<Rightarrow>
             (let row = fetch_one rows
              in Inr (case row of Some r \<Rightarrow> Some (from_row r) | None \<Rightarrow> None)))"

text \<open>
  \<open>DisputeRepository.update_dispute_details\<close>. \<open>request_set.dict()\<close> has the two
  keys \<open>evidence_submitted_at\<close> and \<open>updated_at\<close>; \<open>values\<close> assigns them to
  the columns of the same names. The statement runs on the write target; the method
  returns the first rewritten row together with the store after the write.
\<close>

definition values_of ::
  "UpdateStripeDisputeSetInput \<Rightarrow> StripeDisputeDbEntity \<Rightarrow> StripeDisputeDbEntity" where
  "values_of request_set row =
     row\<lparr> StripeDisputeDbEntity.evidence_submitted_at :=
            Some (UpdateStripeDisputeSetInput.evidence_submitted_at request_set),
          StripeDisputeDbEntity.updated_at :=
            Some (UpdateStripeDisputeSetInput.updated_at request_set) \<rparr>"

definition update_dispute_details ::
  "main_database \<Rightarrow> UpdateStripeDisputeSetInput \<Rightarrow> UpdateStripeDisputeWhereInput
     \<Rightarrow> StripeDisputeDbEntity option \<times> main_database" where
  "update_dispute_details self request_set request_where =
     (let stmt = update_where_returning
            (\<lambda>row. StripeDisputeDbEntity.stripe_dispute_id row
                   = UpdateStripeDisputeWhereInput.id' request_where)
            (values_of request_set);
          (table, returned) = stmt (master self);
          row = fetch_one returned
      in ((case row of Some r \<Rightarrow> Some (from_row r) | None \<Rightarrow> None),
          self\<lparr>master := table\<rparr>))"

text \<open>\<open>DisputeRepository.get_disputes_by_dd_consumer_id\<close>.\<close>

definition get_disputes_by_dd_consumer_id ::
  "main_database \<Rightarrow> GetCumulativeAmountInput \<Rightarrow> StripeDisputeDbEntity list" where
  "get_disputes_by_dd_consumer_id self cumulative_amount_input =
     (let stmt = select_where
            (\<lambda>row. StripeDisputeDbEntity.stripe_card_id row \<in> set (card_ids cumulative_amount_input)
                  \<and> StripeDisputeDbEntity.reason row \<in> set (reasons cumulative_amount_input)
                  \<and> StripeDisputeDbEntity.disputed_at row > start_time cumulative_amount_input);
          stripe_dispute_rows = fetch_all (stmt (replica self));
          stripe_dispute_entities = map from_row stripe_dispute_rows
      in stripe_dispute_entities)"

section \<open>Transfer resource API (app/payout/api/transfer/v0)\<close>

subsection \<open>Request and response models\<close>

text \<open>
  The wire models are classes of the validation library: an instance holds a value for
  every declared field and, apart from the values, the set of the fields that were given
  when it was built (\<open>__fields_set__\<close>). A field that was not given holds its default,
  \<open>None\<close> for the \<open>Optional\<close> fields declared here. A value is null, an integer, a
  string or a datetime.
\<close>

datatype pyvalue = PyNone | PyInt int | PyStr string | PyDatetime datetime

type_synonym pydict = "(string \<times> pyvalue) list"

record model =
  field_values :: pydict
  fields_set :: "string set"

text \<open>
  A model class is given by its declared fields, in the order of the declaration, and by
  the fields that are required: those whose annotation is not \<open>Optional\<close>.
\<close>

record model_class =
  declared :: "string list"
  required :: "string list"

record PaymentException =
  http_status_code :: nat
  error_code :: string
  error_message :: string
  retryable :: bool

datatype error = ValidationError | Raised PaymentException

text \<open>
  \<open>Cls(**kwargs)\<close>: a required field that is missing or null is a validation error;
  otherwise each declared field takes the value given for it, or \<open>None\<close>, and the
  fields given are recorded as set. Keys that are not declared are ignored. The values
  passed between the models of this file already have the declared types, so they are
  taken over as they are.
\<close>

definition model_init :: "model_class \<Rightarrow> pydict \<Rightarrow> error + model" where
  "model_init cls kwargs =
     (if \<exists>r \<in> set (required cls). map_of kwargs r = None \<or> map_of kwargs r = Some PyNone
      then Inl ValidationError
      else Inr \<lparr> field_values =
                   map (\<lambda>k. (k, case map_of kwargs k of None \<Rightarrow> PyNone | Some v \<Rightarrow> v))
                     (declared cls),
                 fields_set = set (filter (\<lambda>k. map_of kwargs k \<noteq> None) (declared cls)) \<rparr>)"

text \<open>
  \<open>m.dict(skip_defaults=...)\<close>: with \<open>skip_defaults=True\<close> the dictionary holds the
  fields of \<open>__fields_set__\<close> only, otherwise every declared field.
\<close>

definition model_dict :: "model \<Rightarrow> bool \<Rightarrow> pydict" where
  "model_dict m skip_defaults =
     (if skip_defaults then filter (\<lambda>(k, v). k \<in> fields_set m) (field_values m)
      else field_values m)"

text \<open>The classes of \<open>models.py\<close>.\<close>

definition StripeTransfer :: model_class where
  "StripeTransfer =
     \<lparr> declared = [''id'', ''created_at'', ''transfer_id'', ''stripe_status'', ''stripe_id'',
         ''stripe_request_id'', ''stripe_failure_code'', ''stripe_account_id'',
         ''stripe_account_type'', ''country_shortname'', ''bank_last_four'', ''bank_name'',
         ''submission_error_code'', ''submission_error_type'', ''submission_status'',
         ''submitted_at''],
       required = [''id'', ''created_at'', ''transfer_id'', ''stripe_status''] \<rparr>"

definition StripeTransferCreate :: model_class where
  "StripeTransferCreate =
     \<lparr> declared = [''transfer_id'', ''stripe_status'', ''stripe_id'',
         ''stripe_request_id'', ''stripe_failure_code'', ''stripe_account_id'',
         ''stripe_account_type'', ''country_shortname'', ''bank_last_four'', ''bank_name'',
         ''submission_error_code'', ''submission_error_type'', ''submission_status'',
         ''submitted_at''],
       required = [''transfer_id'', ''stripe_status''] \<rparr>"

definition StripeTransferUpdate :: model_class where
  "StripeTransferUpdate =
     \<lparr> declared = [''stripe_id'', ''stripe_request_id'', ''stripe_failure_code'',
         ''stripe_account_id'', ''stripe_account_type'', ''country_shortname'',
         ''bank_last_four'', ''bank_name'', ''submission_error_code'',
         ''submission_error_type'', ''submission_status'', ''submitted_at'',
         ''stripe_status'', ''transfer_id''],
       required = [] \<rparr>"

text \<open>
  Modelled from the spec: the classes \<open>StripeTransferCreate\<close> and
  \<open>StripeTransferUpdate\<close> of \<open>app.payout.repository.maindb.model.stripe_transfer\<close> are
  not part of the sources. "Wire models are declared as flat duplicates of domain
  fields" (the wire models are "copied directly from db domain models"), so each has the
  declaration of the wire model of the same name.
\<close>

definition stripe_transfer_StripeTransferCreate :: model_class where
  "stripe_transfer_StripeTransferCreate = StripeTransferCreate"

definition stripe_transfer_StripeTransferUpdate :: model_class where
  "stripe_transfer_StripeTransferUpdate = StripeTransferUpdate"

text \<open>
  A model instance is well formed for its class when it holds exactly the declared
  fields, its set fields are declared fields, and every required field is set and not
  null. Every instance that \<open>model_init\<close> builds is well formed.
\<close>

definition wf_model :: "model_class \<Rightarrow> model \<Rightarrow> bool" where
  "wf_model cls m \<longleftrightarrow>
     map fst (field_values m) = declared cls
     \<and> fields_set m \<subseteq> set (declared cls)
     \<and> (\<forall>r \<in> set (required cls). r \<in> fields_set m \<and> map_of (field_values m) r \<noteq> Some PyNone)"

subsection \<open>Responses\<close>

definition HTTP_200_OK :: nat where "HTTP_200_OK = 200"
definition HTTP_201_CREATED :: nat where "HTTP_201_CREATED = 201"
definition HTTP_404_NOT_FOUND :: nat where "HTTP_404_NOT_FOUND = 404"

text \<open>
  What a handler returns is sent with the status code of its route: nothing (the JSON
  \<open>null\<close>), one model, a list of models, or the \<open>Acknowledgement\<close> of
  \<open>app.payout.api.response\<close>, which is built without arguments.
\<close>

datatype content = Null | Item model | Items "model list" | Acknowledgement

record response =
  status_code :: nat
  content :: content

definition transfer_not_found :: PaymentException where
  "transfer_not_found =
     \<lparr> http_status_code = HTTP_404_NOT_FOUND,
       error_code = ''transfer_not_found'',
       error_message = ''transfer not found'',
       retryable = False \<rparr>"

definition stripe_transfer_not_found :: PaymentException where
  "stripe_transfer_not_found =
     \<lparr> http_status_code = HTTP_404_NOT_FOUND,
       error_code = ''stripe_transfer_not_found'',
       error_message = ''stripe transfer not found'',
       retryable = False \<rparr>"

subsection \<open>The repository the handlers are given\<close>

text \<open>
  The handlers receive a \<open>TransferRepositoryInterface\<close>; its implementation is outside
  the sources, so it is a parameter: the methods the handlers call, as functions of the
  store \<open>'s\<close> they work on. A lookup returns the record or \<open>None\<close>; a write returns
  its result and the store after it; the deletion returns the number of records deleted.
\<close>

record 's TransferRepositoryInterface =
  repo_get_transfer_by_id :: "int \<Rightarrow> 's \<Rightarrow> model option"
  repo_create_stripe_transfer :: "model \<Rightarrow> 's \<Rightarrow> model \<times> 's"
  repo_get_stripe_transfer_by_stripe_id :: "string \<Rightarrow> 's \<Rightarrow> model option"
  repo_get_stripe_transfer_by_id :: "int \<Rightarrow> 's \<Rightarrow> model option"
  repo_update_stripe_transfer_by_id :: "int \<Rightarrow> model \<Rightarrow> 's \<Rightarrow> model option \<times> 's"
  repo_delete_stripe_transfer_by_stripe_id :: "string \<Rightarrow> 's \<Rightarrow> int \<times> 's"

subsection \<open>Handlers\<close>

text \<open>
  A handler returns the response, or the exception it raises. A model instance is a true
  value, so \<open>if not transfer\<close> is the test for \<open>None\<close>.
\<close>

definition get_transfer_by_id ::
  "int \<Rightarrow> 's TransferRepositoryInterface \<Rightarrow> 's \<Rightarrow> error + response" where
  "get_transfer_by_id transfer_id repository s =
     (case repo_get_transfer_by_id repository transfer_id s of
        None \<Rightarrow> Inl (Raised transfer_not_found)
      | Some transfer \<Rightarrow> Inr \<lparr> status_code = HTTP_200_OK, content = Item transfer \<rparr>)"

definition create_stripe_transfer ::
  "model \<Rightarrow> 's TransferRepositoryInterface \<Rightarrow> 's \<Rightarrow> (error + response) \<times> 's" where
  "create_stripe_transfer data repository s =
     (case model_init stripe_transfer_StripeTransferCreate (model_dict data True) of
        Inl e \<Rightarrow> (Inl e, s)
      | Inr internal_request \<Rightarrow>
          (case repo_create_stripe_transfer repository internal_request s of
             (internal_stripe_transfer, s') \<Rightarrow>
               (case model_init StripeTransfer (model_dict internal_stripe_transfer False) of
                  Inl e \<Rightarrow> (Inl e, s')
                | Inr t \<Rightarrow> (Inr \<lparr> status_code = HTTP_201_CREATED, content = Item t \<rparr>, s'))))"

definition get_stripe_transfer_by_stripe_id ::
  "string \<Rightarrow> 's TransferRepositoryInterface \<Rightarrow> 's \<Rightarrow> error + response" where
  "get_stripe_transfer_by_stripe_id stripe_id repository s =
     (case repo_get_stripe_transfer_by_stripe_id repository stripe_id s of
        None \<Rightarrow> Inr \<lparr> status_code = HTTP_200_OK, content = Null \<rparr>
      | Some internal_stripe_transfer \<Rightarrow>
          (case model_init StripeTransfer (model_dict internal_stripe_transfer False) of
             Inl e \<Rightarrow> Inl e
           | Inr t \<Rightarrow> Inr \<lparr> status_code = HTTP_200_OK, content = Item t \<rparr>))"

definition get_stripe_transfer_by_id ::
  "int \<Rightarrow> 's TransferRepositoryInterface \<Rightarrow> 's \<Rightarrow> error + response" where
  "get_stripe_transfer_by_id stripe_transfer_id repository s =
     (case repo_get_stripe_transfer_by_id repository stripe_transfer_id s of
        None \<Rightarrow> Inl (Raised stripe_transfer_not_found)
      | Some internal_stripe_transfer \<Rightarrow>
          (case model_init StripeTransfer (model_dict internal_stripe_transfer False) of
             Inl e \<Rightarrow> Inl e
           | Inr t \<Rightarrow> Inr \<lparr> status_code = HTTP_200_OK, content = Item t \<rparr>))"

definition update_stripe_transfer_by_id ::
  "int \<Rightarrow> model \<Rightarrow> 's TransferRepositoryInterface \<Rightarrow> 's \<Rightarrow> (error + response) \<times> 's" where
  "update_stripe_transfer_by_id stripe_transfer_id body repository s =
     (case model_init stripe_transfer_StripeTransferUpdate (model_dict body True) of
        Inl e \<Rightarrow> (Inl e, s)
      | Inr internal_request \<Rightarrow>
          (case repo_update_stripe_transfer_by_id repository stripe_transfer_id
                  internal_request s of
             (None, s') \<Rightarrow> (Inl (Raised stripe_transfer_not_found), s')
           | (Some internal_stripe_transfer, s') \<Rightarrow>
               (case model_init StripeTransfer (model_dict internal_stripe_transfer False) of
                  Inl e \<Rightarrow> (Inl e, s')
                | Inr t \<Rightarrow> (Inr \<lparr> status_code = HTTP_200_OK, content = Item t \<rparr>, s'))))"

definition delete_stripe_transfer_by_stripe_id ::
  "string \<Rightarrow> 's TransferRepositoryInterface \<Rightarrow> 's \<Rightarrow> (error + response) \<times> 's" where
  "delete_stripe_transfer_by_stripe_id stripe_id repository s =
     (case repo_delete_stripe_transfer_by_stripe_id repository stripe_id s of
        (deleted, s') \<Rightarrow> (Inr \<lparr> status_code = HTTP_200_OK, content = Acknowledgement \<rparr>, s'))"

section \<open>Example data\<close>

text \<open>A small store of three disputes, two of them on card 7, used to run the operations.\<close>

definition example_dispute ::
  "int \<Rightarrow> string \<Rightarrow> datetime \<Rightarrow> string \<Rightarrow> int \<Rightarrow> StripeDisputeDbEntity" where
  "example_dispute i sid at rsn cid =
     \<lparr> StripeDisputeDbEntity.id' = Some i,
       StripeDisputeDbEntity.stripe_dispute_id = sid,
       StripeDisputeDbEntity.disputed_at = at,
       StripeDisputeDbEntity.amount = 1000,
       StripeDisputeDbEntity.fee = 15,
       StripeDisputeDbEntity.net = 985,
       StripeDisputeDbEntity.currency = Some ''usd'',
       StripeDisputeDbEntity.charged_at = at - 10,
       StripeDisputeDbEntity.reason = rsn,
       StripeDisputeDbEntity.status = ''needs_response'',
       StripeDisputeDbEntity.evidence_due_by = at + 100,
       StripeDisputeDbEntity.evidence_submitted_at = None,
       StripeDisputeDbEntity.updated_at = None,
       StripeDisputeDbEntity.stripe_card_id = cid,
       StripeDisputeDbEntity.stripe_charge_id = 500 + i \<rparr>"

definition example_rows :: stripe_disputes_table where
  "example_rows =
     [example_dispute 1 ''dp_1'' 100 ''fraudulent'' 7,
      example_dispute 2 ''dp_2'' 200 ''fraudulent'' 8,
      example_dispute 3 ''dp_3'' 300 ''general'' 7]"

definition example_db :: main_database where
  "example_db = \<lparr> replica = example_rows, master = example_rows \<rparr>"

text \<open>
  A repository that holds no record and keeps, as its store, the log of what it was asked
  to write: for each create or update the dictionary of the set fields of the request it
  received. A create answers with the record it inserted, the request's fields with an
  assigned \<open>id\<close> and \<open>created_at\<close>.
\<close>

definition example_repository :: "pydict list TransferRepositoryInterface" where
  "example_repository =
     \<lparr> repo_get_transfer_by_id = (\<lambda>transfer_id s. None),
       repo_create_stripe_transfer =
         (\<lambda>data s.
            (\<lparr> field_values = (''id'', PyInt 1) # (''created_at'', PyDatetime 0) # field_values data,
               fields_set = {''id'', ''created_at''} \<union> fields_set data \<rparr>,
             s @ [model_dict data True])),
       repo_get_stripe_transfer_by_stripe_id = (\<lambda>stripe_id s. None),
       repo_get_stripe_transfer_by_id = (\<lambda>stripe_transfer_id s. None),
       repo_update_stripe_transfer_by_id =
         (\<lambda>stripe_transfer_id data s. (None, s @ [model_dict data True])),
       repo_delete_stripe_transfer_by_stripe_id = (\<lambda>stripe_id s. (0, s)) \<rparr>"

text \<open>
  Two request bodies as the framework builds them from a client's JSON object: an update
  that sets \<open>stripe_status\<close> and sets \<open>stripe_id\<close> to null, and a create that gives the
  two required fields only.
\<close>

definition example_update_body :: model where
  "example_update_body =
     \<lparr> field_values =
         [(''stripe_id'', PyNone), (''stripe_request_id'', PyNone),
          (''stripe_failure_code'', PyNone), (''stripe_account_id'', PyNone),
          (''stripe_account_type'', PyNone), (''country_shortname'', PyNone),
          (''bank_last_four'', PyNone), (''bank_name'', PyNone),
          (''submission_error_code'', PyNone), (''submission_error_type'', PyNone),
          (''submission_status'', PyNone), (''submitted_at'', PyNone),
          (''stripe_status'', PyStr ''paid''), (''transfer_id'', PyNone)],
       fields_set = {''stripe_id'', ''stripe_status''} \<rparr>"

definition example_create_body :: model where
  "example_create_body =
     \<lparr> field_values =
         [(''transfer_id'', PyInt 12), (''stripe_status'', PyStr ''pending''),
          (''stripe_id'', PyNone), (''stripe_request_id'', PyNone),
          (''stripe_failure_code'', PyNone), (''stripe_account_id'', PyNone),
          (''stripe_account_type'', PyNone), (''country_shortname'', PyNone),
          (''bank_last_four'', PyNone), (''bank_name'', PyNone),
          (''submission_error_code'', PyNone), (''submission_error_type'', PyNone),
          (''submission_status'', PyNone), (''submitted_at'', PyNone)],
       fields_set = {''transfer_id'', ''stripe_status''} \<rparr>"

section \<open>Properties of the dispute repository\<close>

subsection \<open>Entity to domain object\<close>

text \<open>
  Claim C10. For every entity \<open>e\<close>, each of the fifteen fields of the \<open>StripeDispute\<close>
  built by \<open>to_stripe_dispute\<close> (id, stripe\_dispute\_id, disputed\_at, amount, fee, net,
  currency, charged\_at, reason, status, evidence\_due\_by, evidence\_submitted\_at,
  updated\_at, stripe\_card\_id, stripe\_charge\_id) equals the field of the same name of
  \<open>e\<close>: the conversion neither transforms nor drops a value.
\<close>

theorem to_stripe_dispute_fieldwise:
  "StripeDispute.id' (to_stripe_dispute e) = StripeDisputeDbEntity.id' e
   \<and> StripeDispute.stripe_dispute_id (to_stripe_dispute e) = StripeDisputeDbEntity.stripe_dispute_id e
   \<and> StripeDispute.disputed_at (to_stripe_dispute e) = StripeDisputeDbEntity.disputed_at e
   \<and> StripeDispute.amount (to_stripe_dispute e) = StripeDisputeDbEntity.amount e
   \<and> StripeDispute.fee (to_stripe_dispute e) = StripeDisputeDbEntity.fee e
   \<and> StripeDispute.net (to_stripe_dispute e) = StripeDisputeDbEntity.net e
   \<and> StripeDispute.currency (to_stripe_dispute e) = StripeDisputeDbEntity.currency e
   \<and> StripeDispute.charged_at (to_stripe_dispute e) = StripeDisputeDbEntity.charged_at e
   \<and> StripeDispute.reason (to_stripe_dispute e) = StripeDisputeDbEntity.reason e
   \<and> StripeDispute.status (to_stripe_dispute e) = StripeDisputeDbEntity.status e
   \<and> StripeDispute.evidence_due_by (to_stripe_dispute e) = StripeDisputeDbEntity.evidence_due_by e
   \<and> StripeDispute.evidence_submitted_at (to_stripe_dispute e)
       = StripeDisputeDbEntity.evidence_submitted_at e
   \<and> StripeDispute.updated_at (to_stripe_dispute e) = StripeDisputeDbEntity.updated_at e
   \<and> StripeDispute.stripe_card_id (to_stripe_dispute e) = StripeDisputeDbEntity.stripe_card_id e
   \<and> StripeDispute.stripe_charge_id (to_stripe_dispute e) = StripeDisputeDbEntity.stripe_charge_id e"
  by (simp add: to_stripe_dispute_def)

subsection \<open>List queries\<close>

text \<open>
  Claim C5. For every list of card ids, \<open>list_disputes_by_payer_id\<close> returns exactly the
  disputes of the store whose \<open>stripe_card_id\<close> is a member of the list: a dispute is in
  the result if and only if it is a stored row with such a card id. For the empty list
  the result is the empty list, a value and not an error.
\<close>

theorem list_disputes_by_payer_id_exact:
  "(e \<in> set (list_disputes_by_payer_id db inp)
      \<longleftrightarrow> e \<in> set (replica db) \<and> StripeDisputeDbEntity.stripe_card_id e \<in> set (stripe_card_ids inp))
   \<and> (stripe_card_ids inp = [] \<longrightarrow> list_disputes_by_payer_id db inp = [])"
  by (auto simp: list_disputes_by_payer_id_def select_where_def fetch_all_def from_row_def)

text \<open>The operation run on the example store.\<close>

theorem list_disputes_by_payer_id_exact_witness:
  "set (list_disputes_by_payer_id example_db \<lparr> stripe_card_ids = [7] \<rparr>)
     = {example_dispute 1 ''dp_1'' 100 ''fraudulent'' 7, example_dispute 3 ''dp_3'' 300 ''general'' 7}
   \<and> example_dispute 2 ''dp_2'' 200 ''fraudulent'' 8
        \<notin> set (list_disputes_by_payer_id example_db \<lparr> stripe_card_ids = [7] \<rparr>)
   \<and> stripe_card_ids \<lparr> stripe_card_ids = [] \<rparr> = []
   \<and> list_disputes_by_payer_id example_db \<lparr> stripe_card_ids = [] \<rparr> = []"
  using list_disputes_by_payer_id_exact
          [where e = "example_dispute 2 ''dp_2'' 200 ''fraudulent'' 8" and db = example_db
             and inp = "\<lparr> stripe_card_ids = [7] \<rparr>"]
        list_disputes_by_payer_id_exact
          [where e = "example_dispute 1 ''dp_1'' 100 ''fraudulent'' 7" and db = example_db
             and inp = "\<lparr> stripe_card_ids = [] \<rparr>"]
  by (simp add: list_disputes_by_payer_id_def select_where_def fetch_all_def from_row_def
      example_db_def example_rows_def example_dispute_def)

text \<open>
  Claim C4. For every store and every input \<open>(card_ids, reasons, start_time)\<close>, a dispute
  is in the result of \<open>get_disputes_by_dd_consumer_id\<close> if and only if it is a stored
  row whose \<open>stripe_card_id\<close> is in \<open>card_ids\<close>, whose \<open>reason\<close> is in \<open>reasons\<close> and
  whose \<open>disputed_at\<close> is strictly later than \<open>start_time\<close>; a dispute whose
  \<open>disputed_at\<close> equals \<open>start_time\<close> is not in the result.
\<close>

theorem get_disputes_by_dd_consumer_id_iff:
  "(e \<in> set (get_disputes_by_dd_consumer_id db inp)
      \<longleftrightarrow> e \<in> set (replica db)
          \<and> StripeDisputeDbEntity.stripe_card_id e \<in> set (card_ids inp)
          \<and> StripeDisputeDbEntity.reason e \<in> set (reasons inp)
          \<and> StripeDisputeDbEntity.disputed_at e > start_time inp)
   \<and> (StripeDisputeDbEntity.disputed_at e = start_time inp
        \<longrightarrow> e \<notin> set (get_disputes_by_dd_consumer_id db inp))"
  by (auto simp: get_disputes_by_dd_consumer_id_def select_where_def fetch_all_def from_row_def)

text \<open>The operation run on the example store.\<close>

theorem get_disputes_by_dd_consumer_id_iff_witness:
  "get_disputes_by_dd_consumer_id example_db
       \<lparr> card_ids = [7, 8], start_time = 100, reasons = [''fraudulent''] \<rparr>
     = [example_dispute 2 ''dp_2'' 200 ''fraudulent'' 8]
   \<and> StripeDisputeDbEntity.disputed_at (example_dispute 1 ''dp_1'' 100 ''fraudulent'' 7)
       = start_time \<lparr> card_ids = [7, 8], start_time = 100, reasons = [''fraudulent''] \<rparr>
   \<and> example_dispute 1 ''dp_1'' 100 ''fraudulent'' 7
        \<notin> set (get_disputes_by_dd_consumer_id example_db
                 \<lparr> card_ids = [7, 8], start_time = 100, reasons = [''fraudulent''] \<rparr>)"
  using get_disputes_by_dd_consumer_id_iff
          [where e = "example_dispute 1 ''dp_1'' 100 ''fraudulent'' 7" and db = example_db
             and inp = "\<lparr> card_ids = [7, 8], start_time = 100,
                          reasons = [''fraudulent''] \<rparr>"]
  by (simp add: get_disputes_by_dd_consumer_id_def select_where_def fetch_all_def from_row_def
      example_db_def example_rows_def example_dispute_def)

subsection \<open>Lookup of one dispute\<close>

text \<open>
  The two statements of the lookup. With no id type, or with the member
  \<open>STRIPE_DISPUTE_ID\<close> itself, the result is the first stored row with the given
  external id. With any other object, a plain \<open>str\<close> included, the given id is read as
  a number and the result is the first stored row with that internal id, or the store's
  error when the text is not a number.
\<close>

lemma get_dispute_by_dispute_id_external:
  assumes "dispute_id_type inp = None \<or> dispute_id_type inp = Some (Member STRIPE_DISPUTE_ID)"
  shows "get_dispute_by_dispute_id db inp =
           Inr (fetch_one (filter
                  (\<lambda>row. StripeDisputeDbEntity.stripe_dispute_id row
                         = GetStripeDisputeByIdInput.stripe_dispute_id inp) (replica db)))"
  using assms
  by (auto simp: get_dispute_by_dispute_id_def select_where_def from_row_def Let_def
      split: option.splits)

lemma get_dispute_by_dispute_id_internal:
  assumes "dispute_id_type inp = Some v" and "v \<noteq> Member STRIPE_DISPUTE_ID"
  shows "get_dispute_by_dispute_id db inp =
           (case int_of_text (GetStripeDisputeByIdInput.stripe_dispute_id inp) of
              None \<Rightarrow> Inl DataError
            | Some n \<Rightarrow> Inr (fetch_one (filter
                  (\<lambda>row. StripeDisputeDbEntity.id' row = Some n) (replica db))))"
  using assms
  by (auto simp: get_dispute_by_dispute_id_def select_where_def from_row_def Let_def
      split: option.splits)

text \<open>
  Claim C1 says that a lookup whose \<open>dispute_id_type\<close> is unset or equals
  \<open>STRIPE_DISPUTE_ID\<close> returns the row whose external \<open>stripe_dispute_id\<close> is the
  given id, that any other type selects on the internal numeric id, and that no match
  gives \<open>None\<close> and no error. The method compares the type by identity, so a plain
  \<open>str\<close> with the text of the member is taken for another type. On the example store,
  with \<open>dispute_id_type\<close> the plain string \<open>stripe_dispute_id\<close>:
  \<^item> the external id \<open>dp_2\<close> of a stored dispute is not found: it is read as a number
    and the store fails;
  \<^item> the id \<open>2\<close> returns the dispute whose internal id is 2 and whose external id is
    \<open>dp_2\<close>, not \<open>2\<close>;
  \<^item> an external id \<open>dp_9\<close> that no dispute has gives the store's error, not
    \<open>None\<close>.

  With the member itself, or with no type, the same id \<open>dp_2\<close> returns the dispute
  \<open>dp_2\<close>.
\<close>

theorem get_dispute_by_dispute_id_plain_str_selects_by_id:
  "get_dispute_by_dispute_id example_db
       \<lparr> GetStripeDisputeByIdInput.stripe_dispute_id = ''dp_2'',
         dispute_id_type = Some (Str ''stripe_dispute_id'') \<rparr>
     = Inl DataError
   \<and> get_dispute_by_dispute_id example_db
       \<lparr> GetStripeDisputeByIdInput.stripe_dispute_id = ''2'',
         dispute_id_type = Some (Str ''stripe_dispute_id'') \<rparr>
     = Inr (Some (example_dispute 2 ''dp_2'' 200 ''fraudulent'' 8))
   \<and> get_dispute_by_dispute_id example_db
       \<lparr> GetStripeDisputeByIdInput.stripe_dispute_id = ''dp_9'',
         dispute_id_type = Some (Str ''stripe_dispute_id'') \<rparr>
     = Inl DataError
   \<and> get_dispute_by_dispute_id example_db
       \<lparr> GetStripeDisputeByIdInput.stripe_dispute_id = ''dp_2'',
         dispute_id_type = Some (Member STRIPE_DISPUTE_ID) \<rparr>
     = Inr (Some (example_dispute 2 ''dp_2'' 200 ''fraudulent'' 8))
   \<and> get_dispute_by_dispute_id example_db
       \<lparr> GetStripeDisputeByIdInput.stripe_dispute_id = ''dp_2'', dispute_id_type = None \<rparr>
     = Inr (Some (example_dispute 2 ''dp_2'' 200 ''fraudulent'' 8))"
  by (simp add: get_dispute_by_dispute_id_def select_where_def fetch_one_def from_row_def
      int_of_text_def example_db_def example_rows_def example_dispute_def)

subsection \<open>Update of the evidence timestamps\<close>

lemma update_dispute_details_unfold:
  "update_dispute_details db request_set request_where =
     (fetch_one (map (values_of request_set)
        (filter (\<lambda>row. StripeDisputeDbEntity.stripe_dispute_id row
                        = UpdateStripeDisputeWhereInput.id' request_where) (master db))),
      db\<lparr>master := map (\<lambda>row. if StripeDisputeDbEntity.stripe_dispute_id row
                                  = UpdateStripeDisputeWhereInput.id' request_where
                               then values_of request_set row else row) (master db)\<rparr>)"
  by (simp add: update_dispute_details_def update_where_returning_def from_row_def Let_def
      split: option.splits)

lemma values_of_frame:
  "StripeDisputeDbEntity.id' (values_of s r) = StripeDisputeDbEntity.id' r
   \<and> StripeDisputeDbEntity.stripe_dispute_id (values_of s r) = StripeDisputeDbEntity.stripe_dispute_id r
   \<and> StripeDisputeDbEntity.disputed_at (values_of s r) = StripeDisputeDbEntity.disputed_at r
   \<and> StripeDisputeDbEntity.amount (values_of s r) = StripeDisputeDbEntity.amount r
   \<and> StripeDisputeDbEntity.fee (values_of s r) = StripeDisputeDbEntity.fee r
   \<and> StripeDisputeDbEntity.net (values_of s r) = StripeDisputeDbEntity.net r
   \<and> StripeDisputeDbEntity.currency (values_of s r) = StripeDisputeDbEntity.currency r
   \<and> StripeDisputeDbEntity.charged_at (values_of s r) = StripeDisputeDbEntity.charged_at r
   \<and> StripeDisputeDbEntity.reason (values_of s r) = StripeDisputeDbEntity.reason r
   \<and> StripeDisputeDbEntity.status (values_of s r) = StripeDisputeDbEntity.status r
   \<and> StripeDisputeDbEntity.evidence_due_by (values_of s r) = StripeDisputeDbEntity.evidence_due_by r
   \<and> StripeDisputeDbEntity.stripe_card_id (values_of s r) = StripeDisputeDbEntity.stripe_card_id r
   \<and> StripeDisputeDbEntity.stripe_charge_id (values_of s r) = StripeDisputeDbEntity.stripe_charge_id r"
  by (simp add: values_of_def)

text \<open>
  Claim C3. For every store and every call of \<open>update_dispute_details\<close>, the write
  changes at most the fields \<open>evidence_submitted_at\<close> and \<open>updated_at\<close> of the rows
  whose external dispute id is the where-id: the store keeps its rows in place, each of
  the thirteen other fields of every row is the same before and after, and a row whose
  external dispute id differs from the where-id is unchanged as a whole. The read
  target is not written.
\<close>

theorem update_dispute_details_frame:
  assumes "update_dispute_details db request_set request_where = (res, db')"
  shows "replica db' = replica db
   \<and> length (master db') = length (master db)
   \<and> (\<forall>i < length (master db).
        StripeDisputeDbEntity.id' (master db' ! i) = StripeDisputeDbEntity.id' (master db ! i)
        \<and> StripeDisputeDbEntity.stripe_dispute_id (master db' ! i)
            = StripeDisputeDbEntity.stripe_dispute_id (master db ! i)
        \<and> StripeDisputeDbEntity.disputed_at (master db' ! i)
            = StripeDisputeDbEntity.disputed_at (master db ! i)
        \<and> StripeDisputeDbEntity.amount (master db' ! i) = StripeDisputeDbEntity.amount (master db ! i)
        \<and> StripeDisputeDbEntity.fee (master db' ! i) = StripeDisputeDbEntity.fee (master db ! i)
        \<and> StripeDisputeDbEntity.net (master db' ! i) = StripeDisputeDbEntity.net (master db ! i)
        \<and> StripeDisputeDbEntity.currency (master db' ! i)
            = StripeDisputeDbEntity.currency (master db ! i)
        \<and> StripeDisputeDbEntity.charged_at (master db' ! i)
            = StripeDisputeDbEntity.charged_at (master db ! i)
        \<and> StripeDisputeDbEntity.reason (master db' ! i) = StripeDisputeDbEntity.reason (master db ! i)
        \<and> StripeDisputeDbEntity.status (master db' ! i) = StripeDisputeDbEntity.status (master db ! i)
        \<and> StripeDisputeDbEntity.evidence_due_by (master db' ! i)
            = StripeDisputeDbEntity.evidence_due_by (master db ! i)
        \<and> StripeDisputeDbEntity.stripe_card_id (master db' ! i)
            = StripeDisputeDbEntity.stripe_card_id (master db ! i)
        \<and> StripeDisputeDbEntity.stripe_charge_id (master db' ! i)
            = StripeDisputeDbEntity.stripe_charge_id (master db ! i)
        \<and> (StripeDisputeDbEntity.stripe_dispute_id (master db ! i)
              \<noteq> UpdateStripeDisputeWhereInput.id' request_where
            \<longrightarrow> master db' ! i = master db ! i))"
proof -
  let ?p = "\<lambda>row. StripeDisputeDbEntity.stripe_dispute_id row
                    = UpdateStripeDisputeWhereInput.id' request_where"
  let ?u = "\<lambda>row. if ?p row then values_of request_set row else row"
  from assms have db': "db' = db\<lparr>master := map ?u (master db)\<rparr>"
    by (simp add: update_dispute_details_unfold)
  have row: "master db' ! i = ?u (master db ! i)" if "i < length (master db)" for i
    using that by (simp add: db')
  show ?thesis
  proof (intro conjI allI impI)
    show "replica db' = replica db" by (simp add: db')
    show "length (master db') = length (master db)" by (simp add: db')
  qed (simp_all add: row values_of_frame)
qed

text \<open>The operation run on the example store.\<close>

theorem update_dispute_details_frame_witness:
  "update_dispute_details example_db
       \<lparr> UpdateStripeDisputeSetInput.evidence_submitted_at = 400, updated_at = 401 \<rparr>
       \<lparr> UpdateStripeDisputeWhereInput.id' = ''dp_2'' \<rparr>
     = (Some ((example_dispute 2 ''dp_2'' 200 ''fraudulent'' 8)
                \<lparr> StripeDisputeDbEntity.evidence_submitted_at := Some 400,
                  StripeDisputeDbEntity.updated_at := Some 401 \<rparr>),
        example_db\<lparr> master :=
          [example_dispute 1 ''dp_1'' 100 ''fraudulent'' 7,
           (example_dispute 2 ''dp_2'' 200 ''fraudulent'' 8)
                \<lparr> StripeDisputeDbEntity.evidence_submitted_at := Some 400,
                  StripeDisputeDbEntity.updated_at := Some 401 \<rparr>,
           example_dispute 3 ''dp_3'' 300 ''general'' 7] \<rparr>)
   \<and> (1::nat) < length (master example_db)
   \<and> StripeDisputeDbEntity.amount
        (master (snd (update_dispute_details example_db
           \<lparr> UpdateStripeDisputeSetInput.evidence_submitted_at = 400, updated_at = 401 \<rparr>
           \<lparr> UpdateStripeDisputeWhereInput.id' = ''dp_2'' \<rparr>)) ! 1) = 1000
   \<and> StripeDisputeDbEntity.stripe_dispute_id (master example_db ! 0) \<noteq> ''dp_2''
   \<and> master (snd (update_dispute_details example_db
           \<lparr> UpdateStripeDisputeSetInput.evidence_submitted_at = 400, updated_at = 401 \<rparr>
           \<lparr> UpdateStripeDisputeWhereInput.id' = ''dp_2'' \<rparr>)) ! 0
       = master example_db ! 0"
proof -
  let ?s = "\<lparr> UpdateStripeDisputeSetInput.evidence_submitted_at = 400, updated_at = 401 \<rparr>"
  let ?w = "\<lparr> UpdateStripeDisputeWhereInput.id' = ''dp_2'' \<rparr>"
  have run: "update_dispute_details example_db ?s ?w
     = (Some ((example_dispute 2 ''dp_2'' 200 ''fraudulent'' 8)
                \<lparr> StripeDisputeDbEntity.evidence_submitted_at := Some 400,
                  StripeDisputeDbEntity.updated_at := Some 401 \<rparr>),
        example_db\<lparr> master :=
          [example_dispute 1 ''dp_1'' 100 ''fraudulent'' 7,
           (example_dispute 2 ''dp_2'' 200 ''fraudulent'' 8)
                \<lparr> StripeDisputeDbEntity.evidence_submitted_at := Some 400,
                  StripeDisputeDbEntity.updated_at := Some 401 \<rparr>,
           example_dispute 3 ''dp_3'' 300 ''general'' 7] \<rparr>)"
    by (simp add: update_dispute_details_def update_where_returning_def fetch_one_def
        from_row_def values_of_def example_db_def example_rows_def example_dispute_def)
  have len: "(1::nat) < length (master example_db)"
    by (simp add: example_db_def example_rows_def)
  from update_dispute_details_frame [OF run] len
  have "StripeDisputeDbEntity.amount
          (master (example_db\<lparr> master :=
          [example_dispute 1 ''dp_1'' 100 ''fraudulent'' 7,
           (example_dispute 2 ''dp_2'' 200 ''fraudulent'' 8)
                \<lparr> StripeDisputeDbEntity.evidence_submitted_at := Some 400,
                  StripeDisputeDbEntity.updated_at := Some 401 \<rparr>,
           example_dispute 3 ''dp_3'' 300 ''general'' 7] \<rparr>) ! 1)
        = StripeDisputeDbEntity.amount (master example_db ! 1)"
    by blast
  then show ?thesis using run len
    by (simp add: example_db_def example_rows_def example_dispute_def)
qed

text \<open>
  Claim C6. For every call of \<open>update_dispute_details\<close>: if some stored row has the
  where-id as its external dispute id, the call returns such a row in its state after
  the update, the state in which the store then holds it; if no row matches, the call
  returns \<open>None\<close>, a value and not an error, and the store is unchanged.
\<close>

theorem update_dispute_details_returns:
  "((\<exists>r \<in> set (master db). StripeDisputeDbEntity.stripe_dispute_id r
                               = UpdateStripeDisputeWhereInput.id' request_where)
      \<longrightarrow> (\<exists>r \<in> set (master db).
             StripeDisputeDbEntity.stripe_dispute_id r
               = UpdateStripeDisputeWhereInput.id' request_where
             \<and> fst (update_dispute_details db request_set request_where)
                 = Some (values_of request_set r)
             \<and> values_of request_set r
                 \<in> set (master (snd (update_dispute_details db request_set request_where)))))
   \<and> ((\<forall>r \<in> set (master db). StripeDisputeDbEntity.stripe_dispute_id r
                                  \<noteq> UpdateStripeDisputeWhereInput.id' request_where)
      \<longrightarrow> update_dispute_details db request_set request_where = (None, db))"
proof (intro conjI impI)
  let ?p = "\<lambda>row. StripeDisputeDbEntity.stripe_dispute_id row
                    = UpdateStripeDisputeWhereInput.id' request_where"
  let ?u = "\<lambda>row. if ?p row then values_of request_set row else row"
  {
    assume "\<exists>r \<in> set (master db). ?p r"
    then have "filter ?p (master db) \<noteq> []" by (simp add: filter_empty_conv)
    then obtain r rs where f: "filter ?p (master db) = r # rs"
      by (cases "filter ?p (master db)") auto
    then have "r \<in> set (filter ?p (master db))" by simp
    then have r: "r \<in> set (master db)" "?p r" by simp_all
    have "fst (update_dispute_details db request_set request_where)
            = Some (values_of request_set r)"
      by (simp add: update_dispute_details_unfold f fetch_one_def)
    moreover from r(1) have "?u r \<in> ?u ` set (master db)" by (rule imageI)
    then have "values_of request_set r
                 \<in> set (master (snd (update_dispute_details db request_set request_where)))"
      using r(2) by (simp add: update_dispute_details_unfold)
    ultimately show "\<exists>r \<in> set (master db). ?p r
             \<and> fst (update_dispute_details db request_set request_where)
                 = Some (values_of request_set r)
             \<and> values_of request_set r
                 \<in> set (master (snd (update_dispute_details db request_set request_where)))"
      using r by blast
  }
  {
    assume n: "\<forall>r \<in> set (master db). \<not> ?p r"
    then have "filter ?p (master db) = []" by (simp add: filter_empty_conv)
    moreover from n have "map ?u (master db) = master db"
      by (simp add: map_idI)
    ultimately show "update_dispute_details db request_set request_where = (None, db)"
      by (simp add: update_dispute_details_unfold fetch_one_def)
  }
qed

text \<open>The operation run on the example store.\<close>

theorem update_dispute_details_returns_witness:
  "(\<exists>r \<in> set (master example_db). StripeDisputeDbEntity.stripe_dispute_id r = ''dp_2'')
   \<and> fst (update_dispute_details example_db
       \<lparr> UpdateStripeDisputeSetInput.evidence_submitted_at = 400, updated_at = 401 \<rparr>
       \<lparr> UpdateStripeDisputeWhereInput.id' = ''dp_2'' \<rparr>)
     = Some ((example_dispute 2 ''dp_2'' 200 ''fraudulent'' 8)
                \<lparr> StripeDisputeDbEntity.evidence_submitted_at := Some 400,
                  StripeDisputeDbEntity.updated_at := Some 401 \<rparr>)
   \<and> ''dp_9'' \<notin> set (map StripeDisputeDbEntity.stripe_dispute_id (master example_db))
   \<and> update_dispute_details example_db
       \<lparr> UpdateStripeDisputeSetInput.evidence_submitted_at = 400, updated_at = 401 \<rparr>
       \<lparr> UpdateStripeDisputeWhereInput.id' = ''dp_9'' \<rparr>
     = (None, example_db)"
proof -
  let ?s = "\<lparr> UpdateStripeDisputeSetInput.evidence_submitted_at = 400, updated_at = 401 \<rparr>"
  have no: "\<forall>r \<in> set (master example_db).
              StripeDisputeDbEntity.stripe_dispute_id r
                \<noteq> UpdateStripeDisputeWhereInput.id' \<lparr> UpdateStripeDisputeWhereInput.id' = ''dp_9'' \<rparr>"
    by (simp add: example_db_def example_rows_def example_dispute_def)
  have "update_dispute_details example_db ?s \<lparr> UpdateStripeDisputeWhereInput.id' = ''dp_9'' \<rparr>
          = (None, example_db)"
    using update_dispute_details_returns
            [where db = example_db and request_set = ?s
               and request_where = "\<lparr> UpdateStripeDisputeWhereInput.id' = ''dp_9'' \<rparr>"] no
    by blast
  moreover have "fst (update_dispute_details example_db ?s
                   \<lparr> UpdateStripeDisputeWhereInput.id' = ''dp_2'' \<rparr>)
     = Some ((example_dispute 2 ''dp_2'' 200 ''fraudulent'' 8)
                \<lparr> StripeDisputeDbEntity.evidence_submitted_at := Some 400,
                  StripeDisputeDbEntity.updated_at := Some 401 \<rparr>)"
    by (simp add: update_dispute_details_def update_where_returning_def fetch_one_def
        from_row_def values_of_def example_db_def example_rows_def example_dispute_def)
  moreover have "\<exists>r \<in> set (master example_db). StripeDisputeDbEntity.stripe_dispute_id r = ''dp_2''"
    by (simp add: example_db_def example_rows_def example_dispute_def)
  moreover have "''dp_9'' \<notin> set (map StripeDisputeDbEntity.stripe_dispute_id (master example_db))"
    by (simp add: example_db_def example_rows_def example_dispute_def)
  ultimately show ?thesis by simp
qed

section \<open>Properties of the transfer resource API\<close>

subsection \<open>Building a model and reading its set fields\<close>

text \<open>
  The dictionary of the set fields has an entry for a key exactly when the key is a set
  field; a model rebuilt from that dictionary has the same set fields and the same
  dictionary; and what \<open>model_init\<close> builds is well formed.
\<close>

lemma map_of_filter_keys:
  "map_of (filter (\<lambda>(k, v). k \<in> F) xs) k = (if k \<in> F then map_of xs k else None)"
  by (induction xs) auto

lemma filter_keys_rebuild:
  "\<forall>(k, v) \<in> set xs. k \<in> F \<longrightarrow> g k = v \<Longrightarrow>
   filter (\<lambda>(k, v). k \<in> F) (map (\<lambda>k. (k, g k)) (map fst xs)) = filter (\<lambda>(k, v). k \<in> F) xs"
  by (induction xs) auto

lemma wf_model_declared_has_value:
  assumes "wf_model cls m" and "k \<in> set (declared cls)"
  shows "map_of (field_values m) k \<noteq> None"
proof -
  from assms have "k \<in> fst ` set (field_values m)"
    by (simp add: wf_model_def flip: set_map)
  then show ?thesis by (simp add: map_of_eq_None_iff)
qed

lemma model_init_skip_defaults:
  assumes wf: "wf_model cls m" and d: "distinct (declared cls)"
  shows "\<exists>req. model_init cls (model_dict m True) = Inr req
           \<and> fields_set req = fields_set m
           \<and> model_dict req True = model_dict m True"
proof -
  let ?F = "fields_set m"
  let ?kw = "model_dict m True"
  let ?g = "\<lambda>k. case map_of ?kw k of None \<Rightarrow> PyNone | Some v \<Rightarrow> v"
  let ?req = "\<lparr> field_values = map (\<lambda>k. (k, ?g k)) (declared cls),
                fields_set = set (filter (\<lambda>k. map_of ?kw k \<noteq> None) (declared cls)) \<rparr>"
  have kw: "map_of ?kw k = (if k \<in> ?F then map_of (field_values m) k else None)" for k
    by (simp add: model_dict_def map_of_filter_keys)
  have sub: "?F \<subseteq> set (declared cls)" using wf by (simp add: wf_model_def)
  have keys: "map fst (field_values m) = declared cls" using wf by (simp add: wf_model_def)
  have "\<not> (\<exists>r \<in> set (required cls). map_of ?kw r = None \<or> map_of ?kw r = Some PyNone)"
  proof
    assume "\<exists>r \<in> set (required cls). map_of ?kw r = None \<or> map_of ?kw r = Some PyNone"
    then obtain r where r: "r \<in> set (required cls)"
      and bad: "map_of ?kw r = None \<or> map_of ?kw r = Some PyNone" by blast
    from wf r have rF: "r \<in> ?F" and nn: "map_of (field_values m) r \<noteq> Some PyNone"
      by (simp_all add: wf_model_def)
    from rF sub have "r \<in> set (declared cls)" by blast
    with wf have "map_of (field_values m) r \<noteq> None" by (rule wf_model_declared_has_value)
    with bad rF nn show False by (simp add: kw)
  qed
  then have init: "model_init cls ?kw = Inr ?req"
    by (simp only: model_init_def if_False)
  have fs: "fields_set ?req = ?F"
  proof -
    have "k \<in> fields_set ?req \<longleftrightarrow> k \<in> ?F" for k
      using sub wf_model_declared_has_value [OF wf, of k] by (auto simp: kw)
    then show ?thesis by blast
  qed
  have "\<forall>(k, v) \<in> set (field_values m). k \<in> ?F \<longrightarrow> ?g k = v"
  proof -
    from d keys have "distinct (map fst (field_values m))" by simp
    then have "(k, v) \<in> set (field_values m) \<Longrightarrow> map_of (field_values m) k = Some v" for k v
      by simp
    then show ?thesis by (auto simp: kw)
  qed
  then have "filter (\<lambda>(k, v). k \<in> ?F) (map (\<lambda>k. (k, ?g k)) (map fst (field_values m)))
               = filter (\<lambda>(k, v). k \<in> ?F) (field_values m)"
    by (rule filter_keys_rebuild)
  then have md: "model_dict ?req True = model_dict m True"
    using fs by (simp add: model_dict_def keys)
  from init fs md show ?thesis by blast
qed

lemma model_init_wf:
  assumes init: "model_init cls kwargs = Inr m"
    and req: "set (required cls) \<subseteq> set (declared cls)"
  shows "wf_model cls m"
proof -
  let ?g = "\<lambda>k. case map_of kwargs k of None \<Rightarrow> PyNone | Some v \<Rightarrow> v"
  from init have ok: "\<forall>r \<in> set (required cls). map_of kwargs r \<noteq> None \<and> map_of kwargs r \<noteq> Some PyNone"
    by (auto simp: model_init_def split: if_splits)
  from init have m: "m = \<lparr> field_values = map (\<lambda>k. (k, ?g k)) (declared cls),
                           fields_set = set (filter (\<lambda>k. map_of kwargs k \<noteq> None) (declared cls)) \<rparr>"
    by (auto simp: model_init_def split: if_splits)
  have keys: "map fst (field_values m) = declared cls"
    by (simp add: m comp_def)
  have sub: "fields_set m \<subseteq> set (declared cls)"
    by (auto simp: m)
  have "r \<in> fields_set m \<and> map_of (field_values m) r \<noteq> Some PyNone"
    if r: "r \<in> set (required cls)" for r
  proof -
    from r req have dr: "r \<in> set (declared cls)" by blast
    from r ok obtain v where v: "map_of kwargs r = Some v" "v \<noteq> PyNone" by auto
    from dr have "map_of (field_values m) r = Some (?g r)"
      by (simp add: m map_of_map_restrict)
    with v dr show ?thesis by (simp add: m)
  qed
  with keys sub show ?thesis by (simp add: wf_model_def)
qed

lemma distinct_declared:
  "distinct (declared StripeTransferCreate)" "distinct (declared StripeTransferUpdate)"
  by (simp_all add: StripeTransferCreate_def StripeTransferUpdate_def)

subsection \<open>Create and update of a stripe transfer\<close>

text \<open>
  Claim C2. For the create-stripe-transfer and the update-stripe-transfer-by-id
  handlers, with any repository: the request built from a well-formed wire body and
  passed to the repository's create or update has as its set fields exactly the fields
  the client set, each with the client's value, a null included; a field the client left
  unset has no entry in the request's dictionary of set fields, so a repository that
  writes the set fields of the request it receives has no value, null or default, to
  write for it. Presence is a property of the field, kept apart from its value.
\<close>

theorem stripe_transfer_forwards_only_set_fields:
  "(wf_model StripeTransferCreate data \<longrightarrow>
      (\<exists>internal_request.
         model_init stripe_transfer_StripeTransferCreate (model_dict data True)
           = Inr internal_request
         \<and> fields_set internal_request = fields_set data
         \<and> model_dict internal_request True = model_dict data True
         \<and> (\<forall>k. k \<notin> fields_set data \<longrightarrow> map_of (model_dict internal_request True) k = None)
         \<and> (\<forall>k \<in> fields_set data.
               map_of (model_dict internal_request True) k = map_of (field_values data) k)
         \<and> create_stripe_transfer data repository s =
             (case repo_create_stripe_transfer repository internal_request s of
                (internal_stripe_transfer, s') \<Rightarrow>
                  (case model_init StripeTransfer (model_dict internal_stripe_transfer False) of
                     Inl e \<Rightarrow> (Inl e, s')
                   | Inr t \<Rightarrow> (Inr \<lparr> status_code = 201, content = Item t \<rparr>, s')))))
   \<and> (wf_model StripeTransferUpdate body \<longrightarrow>
      (\<exists>internal_request.
         model_init stripe_transfer_StripeTransferUpdate (model_dict body True)
           = Inr internal_request
         \<and> fields_set internal_request = fields_set body
         \<and> model_dict internal_request True = model_dict body True
         \<and> (\<forall>k. k \<notin> fields_set body \<longrightarrow> map_of (model_dict internal_request True) k = None)
         \<and> (\<forall>k \<in> fields_set body.
               map_of (model_dict internal_request True) k = map_of (field_values body) k)
         \<and> update_stripe_transfer_by_id stripe_transfer_id body repository s =
             (case repo_update_stripe_transfer_by_id repository stripe_transfer_id
                     internal_request s of
                (None, s') \<Rightarrow> (Inl (Raised stripe_transfer_not_found), s')
              | (Some internal_stripe_transfer, s') \<Rightarrow>
                  (case model_init StripeTransfer (model_dict internal_stripe_transfer False) of
                     Inl e \<Rightarrow> (Inl e, s')
                   | Inr t \<Rightarrow> (Inr \<lparr> status_code = 200, content = Item t \<rparr>, s')))))"
proof (intro conjI impI)
  assume wf: "wf_model StripeTransferCreate data"
  from model_init_skip_defaults [OF wf distinct_declared(1)]
  obtain req where init: "model_init StripeTransferCreate (model_dict data True) = Inr req"
    and fs: "fields_set req = fields_set data"
    and md: "model_dict req True = model_dict data True" by blast
  have absent: "\<forall>k. k \<notin> fields_set data \<longrightarrow> map_of (model_dict req True) k = None"
    unfolding md by (simp_all add: model_dict_def map_of_filter_keys)
  have present: "\<forall>k \<in> fields_set data.
                   map_of (model_dict req True) k = map_of (field_values data) k"
    unfolding md by (simp_all add: model_dict_def map_of_filter_keys)
  have run: "create_stripe_transfer data repository s =
             (case repo_create_stripe_transfer repository req s of
                (internal_stripe_transfer, s') \<Rightarrow>
                  (case model_init StripeTransfer (model_dict internal_stripe_transfer False) of
                     Inl e \<Rightarrow> (Inl e, s')
                   | Inr t \<Rightarrow> (Inr \<lparr> status_code = 201, content = Item t \<rparr>, s')))"
    unfolding create_stripe_transfer_def stripe_transfer_StripeTransferCreate_def
      HTTP_201_CREATED_def
    by (simp add: init)
  from init fs md absent present run
  show "\<exists>internal_request.
         model_init stripe_transfer_StripeTransferCreate (model_dict data True)
           = Inr internal_request
         \<and> fields_set internal_request = fields_set data
         \<and> model_dict internal_request True = model_dict data True
         \<and> (\<forall>k. k \<notin> fields_set data \<longrightarrow> map_of (model_dict internal_request True) k = None)
         \<and> (\<forall>k \<in> fields_set data.
               map_of (model_dict internal_request True) k = map_of (field_values data) k)
         \<and> create_stripe_transfer data repository s =
             (case repo_create_stripe_transfer repository internal_request s of
                (internal_stripe_transfer, s') \<Rightarrow>
                  (case model_init StripeTransfer (model_dict internal_stripe_transfer False) of
                     Inl e \<Rightarrow> (Inl e, s')
                   | Inr t \<Rightarrow> (Inr \<lparr> status_code = 201, content = Item t \<rparr>, s')))"
    unfolding stripe_transfer_StripeTransferCreate_def by blast
next
  assume wf: "wf_model StripeTransferUpdate body"
  from model_init_skip_defaults [OF wf distinct_declared(2)]
  obtain req where init: "model_init StripeTransferUpdate (model_dict body True) = Inr req"
    and fs: "fields_set req = fields_set body"
    and md: "model_dict req True = model_dict body True" by blast
  have absent: "\<forall>k. k \<notin> fields_set body \<longrightarrow> map_of (model_dict req True) k = None"
    unfolding md by (simp_all add: model_dict_def map_of_filter_keys)
  have present: "\<forall>k \<in> fields_set body.
                   map_of (model_dict req True) k = map_of (field_values body) k"
    unfolding md by (simp_all add: model_dict_def map_of_filter_keys)
  have run: "update_stripe_transfer_by_id stripe_transfer_id body repository s =
             (case repo_update_stripe_transfer_by_id repository stripe_transfer_id req s of
                (None, s') \<Rightarrow> (Inl (Raised stripe_transfer_not_found), s')
              | (Some internal_stripe_transfer, s') \<Rightarrow>
                  (case model_init StripeTransfer (model_dict internal_stripe_transfer False) of
                     Inl e \<Rightarrow> (Inl e, s')
                   | Inr t \<Rightarrow> (Inr \<lparr> status_code = 200, content = Item t \<rparr>, s')))"
    unfolding update_stripe_transfer_by_id_def stripe_transfer_StripeTransferUpdate_def
      HTTP_200_OK_def
    by (simp add: init)
  from init fs md absent present run
  show "\<exists>internal_request.
         model_init stripe_transfer_StripeTransferUpdate (model_dict body True)
           = Inr internal_request
         \<and> fields_set internal_request = fields_set body
         \<and> model_dict internal_request True = model_dict body True
         \<and> (\<forall>k. k \<notin> fields_set body \<longrightarrow> map_of (model_dict internal_request True) k = None)
         \<and> (\<forall>k \<in> fields_set body.
               map_of (model_dict internal_request True) k = map_of (field_values body) k)
         \<and> update_stripe_transfer_by_id stripe_transfer_id body repository s =
             (case repo_update_stripe_transfer_by_id repository stripe_transfer_id
                     internal_request s of
                (None, s') \<Rightarrow> (Inl (Raised stripe_transfer_not_found), s')
              | (Some internal_stripe_transfer, s') \<Rightarrow>
                  (case model_init StripeTransfer (model_dict internal_stripe_transfer False) of
                     Inl e \<Rightarrow> (Inl e, s')
                   | Inr t \<Rightarrow> (Inr \<lparr> status_code = 200, content = Item t \<rparr>, s')))"
    unfolding stripe_transfer_StripeTransferUpdate_def by blast
qed

text \<open>
  Both handlers run on the example bodies with the repository that logs the set fields of
  each request: the update carries the explicit null of \<open>stripe_id\<close> and none of the
  twelve fields left unset.
\<close>

theorem stripe_transfer_forwards_only_set_fields_witness:
  "model_init StripeTransferUpdate [(''stripe_status'', PyStr ''paid''), (''stripe_id'', PyNone)]
     = Inr example_update_body
   \<and> wf_model StripeTransferUpdate example_update_body
   \<and> update_stripe_transfer_by_id 5 example_update_body example_repository []
       = (Inl (Raised stripe_transfer_not_found),
          [[(''stripe_id'', PyNone), (''stripe_status'', PyStr ''paid'')]])
   \<and> wf_model StripeTransferCreate example_create_body
   \<and> snd (create_stripe_transfer example_create_body example_repository [])
       = [[(''transfer_id'', PyInt 12), (''stripe_status'', PyStr ''pending'')]]"
proof -
  have wu: "wf_model StripeTransferUpdate example_update_body"
    by (simp add: wf_model_def StripeTransferUpdate_def example_update_body_def)
  have wc: "wf_model StripeTransferCreate example_create_body"
    by (simp add: wf_model_def StripeTransferCreate_def example_create_body_def)
  have du: "model_dict example_update_body True
              = [(''stripe_id'', PyNone), (''stripe_status'', PyStr ''paid'')]"
    by (simp add: model_dict_def example_update_body_def)
  have dc: "model_dict example_create_body True
              = [(''transfer_id'', PyInt 12), (''stripe_status'', PyStr ''pending'')]"
    by (simp add: model_dict_def example_create_body_def)
  from stripe_transfer_forwards_only_set_fields
         [where data = example_create_body and body = example_update_body
            and repository = example_repository and s = "[]" and stripe_transfer_id = 5]
       wu wc
  obtain rc ru where
    c: "model_dict rc True = model_dict example_create_body True"
       "create_stripe_transfer example_create_body example_repository [] =
          (case repo_create_stripe_transfer example_repository rc [] of
             (internal_stripe_transfer, s') \<Rightarrow>
               (case model_init StripeTransfer (model_dict internal_stripe_transfer False) of
                  Inl e \<Rightarrow> (Inl e, s')
                | Inr t \<Rightarrow> (Inr \<lparr> status_code = 201, content = Item t \<rparr>, s')))"
    and u: "model_dict ru True = model_dict example_update_body True"
       "update_stripe_transfer_by_id 5 example_update_body example_repository [] =
          (case repo_update_stripe_transfer_by_id example_repository 5 ru [] of
             (None, s') \<Rightarrow> (Inl (Raised stripe_transfer_not_found), s')
           | (Some internal_stripe_transfer, s') \<Rightarrow>
               (case model_init StripeTransfer (model_dict internal_stripe_transfer False) of
                  Inl e \<Rightarrow> (Inl e, s')
                | Inr t \<Rightarrow> (Inr \<lparr> status_code = 200, content = Item t \<rparr>, s')))"
    by blast
  have "update_stripe_transfer_by_id 5 example_update_body example_repository []
       = (Inl (Raised stripe_transfer_not_found),
          [[(''stripe_id'', PyNone), (''stripe_status'', PyStr ''paid'')]])"
    unfolding u(2) by (simp add: example_repository_def u(1) du)
  moreover have "snd (create_stripe_transfer example_create_body example_repository [])
       = [[(''transfer_id'', PyInt 12), (''stripe_status'', PyStr ''pending'')]]"
    unfolding c(2) by (simp add: example_repository_def c(1) dc split: sum.splits)
  moreover have "model_init StripeTransferUpdate
                   [(''stripe_status'', PyStr ''paid''), (''stripe_id'', PyNone)]
                 = Inr example_update_body"
    by (simp add: model_init_def StripeTransferUpdate_def example_update_body_def)
  ultimately show ?thesis using wu wc by simp
qed

subsection \<open>Lookups and deletion\<close>

text \<open>
  Claim C7. For every \<open>stripe_id\<close>, the handler of
  \<open>GET /stripe/_get-by-stripe-id\<close> answers with at most one stripe transfer; when the
  repository finds none with that processor id, the response has status 200 and a null
  body. The handler never raises the not-found exception (nor any other payment
  exception), whereas the lookup by internal id, \<open>get_stripe_transfer_by_id\<close>, raises
  the exception with status 404 when the repository finds nothing.
\<close>

theorem get_stripe_transfer_by_stripe_id_absent:
  "(repo_get_stripe_transfer_by_stripe_id repository stripe_id s = None \<longrightarrow>
      get_stripe_transfer_by_stripe_id stripe_id repository s
        = Inr \<lparr> status_code = 200, content = Null \<rparr>)
   \<and> (\<forall>e. get_stripe_transfer_by_stripe_id stripe_id repository s \<noteq> Inl (Raised e))
   \<and> (\<forall>r. get_stripe_transfer_by_stripe_id stripe_id repository s = Inr r \<longrightarrow>
          status_code r = 200 \<and> (content r = Null \<or> (\<exists>t. content r = Item t)))
   \<and> (repo_get_stripe_transfer_by_id repository stripe_transfer_id s = None \<longrightarrow>
        (\<exists>e. get_stripe_transfer_by_id stripe_transfer_id repository s = Inl (Raised e)
            \<and> http_status_code e = 404))"
  by (auto simp: get_stripe_transfer_by_stripe_id_def get_stripe_transfer_by_id_def
      model_init_def stripe_transfer_not_found_def HTTP_200_OK_def HTTP_404_NOT_FOUND_def
      split: option.splits sum.splits if_splits)

text \<open>Both lookups on the repository that holds no record.\<close>

theorem get_stripe_transfer_by_stripe_id_absent_witness:
  "repo_get_stripe_transfer_by_stripe_id example_repository ''tr_unknown'' [] = None
   \<and> get_stripe_transfer_by_stripe_id ''tr_unknown'' example_repository []
       = Inr \<lparr> status_code = 200, content = Null \<rparr>
   \<and> repo_get_stripe_transfer_by_id example_repository 5 [] = None
   \<and> get_stripe_transfer_by_id 5 example_repository []
       = Inl (Raised stripe_transfer_not_found)"
  using get_stripe_transfer_by_stripe_id_absent
          [where repository = example_repository and stripe_id = "''tr_unknown''"
             and s = "[]" and stripe_transfer_id = 5]
  by (simp add: example_repository_def get_stripe_transfer_by_id_def)

text \<open>
  Claim C8. For every \<open>stripe_id\<close>, whatever the repository's deletion reports,
  the handler of \<open>DELETE /stripe/_delete-by-stripe-id\<close> answers with status 200 and
  the acknowledgement, never with an error; the store after the call is the one the
  repository's deletion leaves, and a second call with the same \<open>stripe_id\<close> gets the
  same response as the first.
\<close>

theorem delete_stripe_transfer_by_stripe_id_acknowledges:
  "fst (delete_stripe_transfer_by_stripe_id stripe_id repository s)
     = Inr \<lparr> status_code = 200, content = Acknowledgement \<rparr>
   \<and> snd (delete_stripe_transfer_by_stripe_id stripe_id repository s)
       = snd (repo_delete_stripe_transfer_by_stripe_id repository stripe_id s)
   \<and> fst (delete_stripe_transfer_by_stripe_id stripe_id repository
            (snd (delete_stripe_transfer_by_stripe_id stripe_id repository s)))
       = fst (delete_stripe_transfer_by_stripe_id stripe_id repository s)"
  by (simp add: delete_stripe_transfer_by_stripe_id_def HTTP_200_OK_def split: prod.splits)

text \<open>The deletion of an id that no record has, where the repository deletes nothing.\<close>

theorem delete_stripe_transfer_by_stripe_id_acknowledges_witness:
  "delete_stripe_transfer_by_stripe_id ''tr_unknown'' example_repository []
     = (Inr \<lparr> status_code = 200, content = Acknowledgement \<rparr>, [])"
  using delete_stripe_transfer_by_stripe_id_acknowledges
          [where repository = example_repository and stripe_id = "''tr_unknown''" and s = "[]"]
  by (simp add: example_repository_def prod_eq_iff)

text \<open>
  Claim C9. For every \<open>transfer_id\<close> for which the repository finds no transfer, the
  handler of \<open>GET /{transfer_id}\<close> raises the payment exception with status 404,
  error code \<open>transfer_not_found\<close>, message \<open>transfer not found\<close> and
  \<open>retryable\<close> false.
\<close>

theorem get_transfer_by_id_not_found:
  "repo_get_transfer_by_id repository transfer_id s = None \<longrightarrow>
     (\<exists>e. get_transfer_by_id transfer_id repository s = Inl (Raised e)
         \<and> http_status_code e = 404
         \<and> error_code e = ''transfer_not_found''
         \<and> error_message e = ''transfer not found''
         \<and> retryable e = False)"
  by (simp add: get_transfer_by_id_def transfer_not_found_def HTTP_404_NOT_FOUND_def)

text \<open>The lookup on the repository that holds no record.\<close>

theorem get_transfer_by_id_not_found_witness:
  "repo_get_transfer_by_id example_repository 42 [] = None
   \<and> get_transfer_by_id 42 example_repository [] = Inl (Raised transfer_not_found)
   \<and> http_status_code transfer_not_found = 404"
  using get_transfer_by_id_not_found
          [where repository = example_repository and transfer_id = 42 and s = "[]"]
  by (auto simp: example_repository_def get_transfer_by_id_def transfer_not_found_def
      HTTP_404_NOT_FOUND_def)

end
